theory Spec2Isabelle
  imports Main "HOL-Library.Word"
begin

section \<open>Equihash solution verification: the entry points of equihashverify.cc\<close>

text \<open>
  The file \<^verbatim>\<open>src/Native/libmultihash/equi/equihashverify.cc\<close> exports four functions,
  \<^verbatim>\<open>verifyEH_96_5\<close>, \<^verbatim>\<open>verifyEH_200_9\<close>, \<^verbatim>\<open>verifyEH_144_5\<close> and \<^verbatim>\<open>verifyEH_192_7\<close>.
  Each checks the length of the solution, chooses the personalization, prepares a BLAKE2b
  state from the header and asks the Equihash verifier of \<^verbatim>\<open>crypto/equihash.h\<close> for the
  verdict.
\<close>

type_synonym byte = "8 word"

subsection \<open>The hash library\<close>

text \<open>
  Modelled from the spec: \<^verbatim>\<open>EhInitialiseState\<close>, \<^verbatim>\<open>crypto_generichash_blake2b_update\<close> and
  the method \<^verbatim>\<open>IsValidSolution\<close> of the objects \<^verbatim>\<open>Eh96_5\<close>, \<^verbatim>\<open>Eh200_9\<close>, \<^verbatim>\<open>Eh144_5\<close> and
  \<^verbatim>\<open>Eh192_7\<close> are declared in \<^verbatim>\<open>crypto/equihash.h\<close>, which is not among the sources. They are
  parameters of the model, with the contract the specification gives the external hash
  primitive and the structural verifier (sections 4.3 and 6): \<open>init\<close> configures a state from
  (N, K, personalization), \<open>update\<close> mixes bytes into a state, and the verifier maps a ready
  state and a solution to a boolean. The type \<open>'st\<close> of hash states is left open.

  \<^item> \<^verbatim>\<open>EhInitialiseState(n, k, state, personalization)\<close> writes the local \<^verbatim>\<open>state\<close>, which
    the caller declares without initialising it: the model returns the state written.
  \<^item> \<^verbatim>\<open>crypto_generichash_blake2b_update(&state, in, inlen)\<close> reads \<^verbatim>\<open>inlen\<close> bytes at \<^verbatim>\<open>in\<close>
    and updates \<^verbatim>\<open>state\<close> in place: the model takes the bytes read and returns the new state.
  \<^item> \<^verbatim>\<open>EhN_K.IsValidSolution(state, soln)\<close> belongs to the instance for the parameters
    (N, K): the model passes N and K to one function.
\<close>

record 'st equihash_lib =
  EhInitialiseState :: "nat \<Rightarrow> nat \<Rightarrow> string \<Rightarrow> 'st"
  crypto_generichash_blake2b_update :: "'st \<Rightarrow> byte list \<Rightarrow> 'st"
  IsValidSolution :: "nat \<Rightarrow> nat \<Rightarrow> 'st \<Rightarrow> byte list \<Rightarrow> bool"

subsection \<open>The memory a call works on\<close>

text \<open>
  The three parameters of every entry point address memory of the caller:
  \<^item> \<^verbatim>\<open>const char *hdr\<close> comes without a length; \<open>hdr w i\<close> is the byte \<^verbatim>\<open>hdr[i]\<close>;
  \<^item> \<^verbatim>\<open>const std::vector<unsigned char> &soln\<close> is the solution blob;
  \<^item> \<^verbatim>\<open>const char *personalization\<close> is a C string, or \<^verbatim>\<open>NULL\<close> (\<open>None\<close>).

  Every call into the hash library is recorded in \<open>calls\<close>, oldest first, with the
  arguments it was given. These calls are the only effects the source has.
\<close>

datatype 'st call =
    InitCall nat nat string
  | UpdateCall 'st "byte list"
  | ValidCall nat nat 'st "byte list"

record 'st world =
  hdr :: "nat \<Rightarrow> byte"
  soln :: "byte list"
  personalization :: "string option"
  calls :: "'st call list"

definition call_EhInitialiseState ::
  "'st equihash_lib \<Rightarrow> nat \<Rightarrow> nat \<Rightarrow> string \<Rightarrow> 'st world \<Rightarrow> 'st \<times> 'st world" where
  "call_EhInitialiseState lib n k p w =
     (EhInitialiseState lib n k p, w\<lparr>calls := calls w @ [InitCall n k p]\<rparr>)"

text \<open>The bytes \<^verbatim>\<open>p[0]\<close>, ..., \<^verbatim>\<open>p[len - 1]\<close> behind a pointer.\<close>

definition bytes_at :: "(nat \<Rightarrow> byte) \<Rightarrow> nat \<Rightarrow> byte list" where
  "bytes_at p len = map p [0..<len]"

definition call_crypto_generichash_blake2b_update ::
  "'st equihash_lib \<Rightarrow> 'st \<Rightarrow> (nat \<Rightarrow> byte) \<Rightarrow> nat \<Rightarrow> 'st world \<Rightarrow> 'st \<times> 'st world" where
  "call_crypto_generichash_blake2b_update lib state p len w =
     (crypto_generichash_blake2b_update lib state (bytes_at p len),
      w\<lparr>calls := calls w @ [UpdateCall state (bytes_at p len)]\<rparr>)"

definition call_IsValidSolution ::
  "'st equihash_lib \<Rightarrow> nat \<Rightarrow> nat \<Rightarrow> 'st \<Rightarrow> byte list \<Rightarrow> 'st world \<Rightarrow> bool \<times> 'st world" where
  "call_IsValidSolution lib n k state s w =
     (IsValidSolution lib n k state s, w\<lparr>calls := calls w @ [ValidCall n k state s]\<rparr>)"

subsection \<open>The entry points\<close>

text \<open>
  \<^verbatim>\<open>static const char *default_personalization = "ZcashPoW";\<close> and
  \<^verbatim>\<open>static const char *default_personalization_zero = "ZERO_PoW";\<close>
  have internal linkage and are assigned nowhere in the file.
\<close>

definition default_personalization :: string where
  "default_personalization = ''ZcashPoW''"

definition default_personalization_zero :: string where
  "default_personalization_zero = ''ZERO_PoW''"

text \<open>
  Each function is translated statement by statement. The parameter \<^verbatim>\<open>personalization\<close>
  is the function's own copy of the pointer: assigning the default to it changes which
  string is used (\<open>personalization'\<close>), not the memory of the caller.
\<close>

definition verifyEH_96_5 :: "'st equihash_lib \<Rightarrow> 'st world \<Rightarrow> bool \<times> 'st world" where
  "verifyEH_96_5 lib w =
     (let n = (96::nat); k = (5::nat) in
      if length (soln w) \<noteq> 68 then (False, w)
      else
        let personalization' =
              (case personalization w of
                 None \<Rightarrow> default_personalization
               | Some p \<Rightarrow> p);
            (state, w) = call_EhInitialiseState lib n k personalization' w;
            (state, w) = call_crypto_generichash_blake2b_update lib state (hdr w) 140 w;
            (isValid, w) = call_IsValidSolution lib n k state (soln w) w
        in (isValid, w))"

definition verifyEH_200_9 :: "'st equihash_lib \<Rightarrow> 'st world \<Rightarrow> bool \<times> 'st world" where
  "verifyEH_200_9 lib w =
     (let n = (200::nat); k = (9::nat) in
      if length (soln w) \<noteq> 1344 then (False, w)
      else
        let personalization' =
              (case personalization w of
                 None \<Rightarrow> default_personalization
               | Some p \<Rightarrow> p);
            (state, w) = call_EhInitialiseState lib n k personalization' w;
            (state, w) = call_crypto_generichash_blake2b_update lib state (hdr w) 140 w;
            (isValid, w) = call_IsValidSolution lib n k state (soln w) w
        in (isValid, w))"

definition verifyEH_144_5 :: "'st equihash_lib \<Rightarrow> 'st world \<Rightarrow> bool \<times> 'st world" where
  "verifyEH_144_5 lib w =
     (let n = (144::nat); k = (5::nat) in
      if length (soln w) \<noteq> 100 then (False, w)
      else
        let personalization' =
              (case personalization w of
                 None \<Rightarrow> default_personalization
               | Some p \<Rightarrow> p);
            (state, w) = call_EhInitialiseState lib n k personalization' w;
            (state, w) = call_crypto_generichash_blake2b_update lib state (hdr w) 140 w;
            (isValid, w) = call_IsValidSolution lib n k state (soln w) w
        in (isValid, w))"

definition verifyEH_192_7 :: "'st equihash_lib \<Rightarrow> 'st world \<Rightarrow> bool \<times> 'st world" where
  "verifyEH_192_7 lib w =
     (let n = (192::nat); k = (7::nat) in
      if length (soln w) \<noteq> 400 then (False, w)
      else
        let personalization' =
              (case personalization w of
                 None \<Rightarrow> default_personalization_zero
               | Some p \<Rightarrow> p);
            (state, w) = call_EhInitialiseState lib n k personalization' w;
            (state, w) = call_crypto_generichash_blake2b_update lib state (hdr w) 140 w;
            (isValid, w) = call_IsValidSolution lib n k state (soln w) w
        in (isValid, w))"

subsection \<open>Notions of the specification\<close>

text \<open>
  The personalization in effect: the override when one is given, the default of the
  variant when it is absent (specification, section 4.2).
\<close>

definition effective_personalization :: "string \<Rightarrow> string option \<Rightarrow> string" where
  "effective_personalization dflt p = (case p of None \<Rightarrow> dflt | Some s \<Rightarrow> s)"

text \<open>
  The ready hash state of section 4.3: configured with (N, K, personalization), then
  updated once with the 140 bytes of the header.
\<close>

definition ready_state :: "'st equihash_lib \<Rightarrow> nat \<Rightarrow> nat \<Rightarrow> string \<Rightarrow> (nat \<Rightarrow> byte) \<Rightarrow> 'st" where
  "ready_state lib n k p h =
     crypto_generichash_blake2b_update lib (EhInitialiseState lib n k p) (bytes_at h 140)"

text \<open>
  The specification's \<open>requiredSolutionBytes\<close> (section 3): the packed bit length of
  \<open>2 ^ K\<close> indices at \<open>N / (K + 1) + 1\<close> bits each, rounded to bytes.
\<close>

definition solutionIndexCount :: "nat \<Rightarrow> nat" where
  "solutionIndexCount k = 2 ^ k"

definition bitsPerIndex :: "nat \<Rightarrow> nat \<Rightarrow> nat" where
  "bitsPerIndex n k = n div (k + 1) + 1"

definition requiredSolutionBytes :: "nat \<Rightarrow> nat \<Rightarrow> nat" where
  "requiredSolutionBytes n k = (solutionIndexCount k * bitsPerIndex n k + 7) div 8"

text \<open>
  The personalization tags with which hash states were initialised, read off a record of
  calls.
\<close>

fun init_tags :: "'st call list \<Rightarrow> string list" where
  "init_tags [] = []"
| "init_tags (InitCall n k p # cs) = p # init_tags cs"
| "init_tags (UpdateCall s bs # cs) = init_tags cs"
| "init_tags (ValidCall n k s bs # cs) = init_tags cs"

subsection \<open>A stub of the hash library\<close>

text \<open>
  To run the entry points on concrete inputs, the hash library is replaced by a stub whose
  state is the transcript of what was put into it: the parameters, the personalization and
  the bytes. Its verifier accepts a solution that begins with the first byte hashed.
\<close>

type_synonym transcript = "nat \<times> nat \<times> string \<times> byte list"

definition stub_lib :: "transcript equihash_lib" where
  "stub_lib =
     \<lparr> EhInitialiseState = (\<lambda>n k p. (n, k, p, [])),
       crypto_generichash_blake2b_update = (\<lambda>(n, k, p, bs) b. (n, k, p, bs @ b)),
       IsValidSolution = (\<lambda>n k (n', k', p, bs) s. n' = n \<and> k' = k \<and> take 1 s = take 1 bs) \<rparr>"

definition stub_world :: "nat \<Rightarrow> byte \<Rightarrow> string option \<Rightarrow> transcript world" where
  "stub_world len b p =
     \<lparr> hdr = (\<lambda>i. 0), soln = replicate len b, personalization = p, calls = [] \<rparr>"

section \<open>The entry points with a library that can fail, keep state and write\<close>

text \<open>
  The model above takes the operations of the library as functions of their arguments.
  C++ allows a callee more: it may throw, keep state between calls, write to a stream, and
  write through a pointer to const after a cast; and a \<^verbatim>\<open>const char *\<close> does not promise
  that 140 bytes can be read behind it. The second model has all of this, so that what a
  property needs of the library and of the header is a hypothesis that can be read, not a
  consequence of the types.
\<close>

text \<open>
  How a call ends: it returns a value; it throws, and since the source has no handler an
  exception of a callee leaves the entry point too; or its behaviour is undefined, as that
  of a read through \<^verbatim>\<open>NULL\<close> or past the end of a buffer is.
\<close>

datatype 'a result = Returns 'a | Throws string | Undefined

text \<open>
  What lies outside \<^verbatim>\<open>equihashverify.cc\<close>: the buffers of the caller, whatever the library
  keeps between calls (\<open>lib_globals\<close>: \<^verbatim>\<open>Eh96_5\<close>, \<^verbatim>\<open>Eh200_9\<close>, \<^verbatim>\<open>Eh144_5\<close> and \<^verbatim>\<open>Eh192_7\<close> are
  global objects), and what has been written to streams and files (\<open>written\<close>). The header
  is \<^verbatim>\<open>NULL\<close> (\<open>None\<close>) or a buffer of so many bytes.
\<close>

record 'g outside =
  hdr_buf :: "byte list option"
  soln_vec :: "byte list"
  personalization_str :: "string option"
  lib_globals :: 'g
  written :: "string list"

text \<open>
  The state a call works on: the outside, and the two statics of the file. Both are
  declared \<^verbatim>\<open>static const char *\<close>, pointers to constant characters that are themselves
  variables.
\<close>

record 'g machine =
  outside :: "'g outside"
  default_personalization_var :: string
  default_personalization_zero_var :: string

text \<open>
  The library, with no more assumed than that it is called: every operation gets the
  outside and may change all of it, and it may end in any of the three ways. The update
  returns its \<^verbatim>\<open>int\<close> status with the new state.
\<close>

record ('st, 'g) library =
  lib_EhInitialiseState ::
    "nat \<Rightarrow> nat \<Rightarrow> string \<Rightarrow> 'g outside \<Rightarrow> 'st result \<times> 'g outside"
  lib_crypto_generichash_blake2b_update ::
    "'st \<Rightarrow> byte list \<Rightarrow> 'g outside \<Rightarrow> (int \<times> 'st) result \<times> 'g outside"
  lib_IsValidSolution ::
    "nat \<Rightarrow> nat \<Rightarrow> 'st \<Rightarrow> byte list \<Rightarrow> 'g outside \<Rightarrow> bool result \<times> 'g outside"

text \<open>
  One statement after another: the second runs if the first returned, on the outside that
  the first left.
\<close>

definition and_then ::
  "('o \<Rightarrow> 'a result \<times> 'o) \<Rightarrow> ('a \<Rightarrow> 'o \<Rightarrow> 'b result \<times> 'o) \<Rightarrow> 'o \<Rightarrow> 'b result \<times> 'o" where
  "and_then c f out =
     (case c out of
        (Returns x, out') \<Rightarrow> f x out'
      | (Throws e, out') \<Rightarrow> (Throws e, out')
      | (Undefined, out') \<Rightarrow> (Undefined, out'))"

text \<open>
  Reading \<open>len\<close> bytes through a pointer is defined when the pointer is not \<^verbatim>\<open>NULL\<close> and
  the buffer holds that many.
\<close>

definition read_bytes :: "byte list option \<Rightarrow> nat \<Rightarrow> byte list option" where
  "read_bytes buf len =
     (case buf of
        None \<Rightarrow> None
      | Some bs \<Rightarrow> if len \<le> length bs then Some (take len bs) else None)"

text \<open>
  \<^verbatim>\<open>crypto_generichash_blake2b_update(&state, (const unsigned char*)hdr, 140)\<close> reads
  through \<^verbatim>\<open>hdr\<close>; \<^verbatim>\<open>IsValidSolution(state, soln)\<close> reads the vector behind the reference.
\<close>

definition update_from ::
  "('st, 'g) library \<Rightarrow> 'st \<Rightarrow> nat \<Rightarrow> 'g outside \<Rightarrow> (int \<times> 'st) result \<times> 'g outside" where
  "update_from lib state len out =
     (case read_bytes (hdr_buf out) len of
        None \<Rightarrow> (Undefined, out)
      | Some bytes \<Rightarrow> lib_crypto_generichash_blake2b_update lib state bytes out)"

definition valid_on ::
  "('st, 'g) library \<Rightarrow> nat \<Rightarrow> nat \<Rightarrow> 'st \<Rightarrow> 'g outside \<Rightarrow> bool result \<times> 'g outside" where
  "valid_on lib n k state out = lib_IsValidSolution lib n k state (soln_vec out) out"

text \<open>
  The four functions again, statement by statement. The status that the update returns is
  bound and not used, as the source drops it.
\<close>

definition verifyEH_96_5_m ::
  "('st, 'g) library \<Rightarrow> 'g machine \<Rightarrow> bool result \<times> 'g machine" where
  "verifyEH_96_5_m lib m =
     (let n = (96::nat); k = (5::nat) in
      if length (soln_vec (outside m)) \<noteq> 68 then (Returns False, m)
      else
        let personalization' =
              (case personalization_str (outside m) of
                 None \<Rightarrow> default_personalization_var m
               | Some p \<Rightarrow> p);
            (isValid, out) =
              and_then (lib_EhInitialiseState lib n k personalization') (\<lambda>state.
              and_then (update_from lib state 140) (\<lambda>(status, state).
              valid_on lib n k state)) (outside m)
        in (isValid, m\<lparr>outside := out\<rparr>))"

definition verifyEH_200_9_m ::
  "('st, 'g) library \<Rightarrow> 'g machine \<Rightarrow> bool result \<times> 'g machine" where
  "verifyEH_200_9_m lib m =
     (let n = (200::nat); k = (9::nat) in
      if length (soln_vec (outside m)) \<noteq> 1344 then (Returns False, m)
      else
        let personalization' =
              (case personalization_str (outside m) of
                 None \<Rightarrow> default_personalization_var m
               | Some p \<Rightarrow> p);
            (isValid, out) =
              and_then (lib_EhInitialiseState lib n k personalization') (\<lambda>state.
              and_then (update_from lib state 140) (\<lambda>(status, state).
              valid_on lib n k state)) (outside m)
        in (isValid, m\<lparr>outside := out\<rparr>))"

definition verifyEH_144_5_m ::
  "('st, 'g) library \<Rightarrow> 'g machine \<Rightarrow> bool result \<times> 'g machine" where
  "verifyEH_144_5_m lib m =
     (let n = (144::nat); k = (5::nat) in
      if length (soln_vec (outside m)) \<noteq> 100 then (Returns False, m)
      else
        let personalization' =
              (case personalization_str (outside m) of
                 None \<Rightarrow> default_personalization_var m
               | Some p \<Rightarrow> p);
            (isValid, out) =
              and_then (lib_EhInitialiseState lib n k personalization') (\<lambda>state.
              and_then (update_from lib state 140) (\<lambda>(status, state).
              valid_on lib n k state)) (outside m)
        in (isValid, m\<lparr>outside := out\<rparr>))"

definition verifyEH_192_7_m ::
  "('st, 'g) library \<Rightarrow> 'g machine \<Rightarrow> bool result \<times> 'g machine" where
  "verifyEH_192_7_m lib m =
     (let n = (192::nat); k = (7::nat) in
      if length (soln_vec (outside m)) \<noteq> 400 then (Returns False, m)
      else
        let personalization' =
              (case personalization_str (outside m) of
                 None \<Rightarrow> default_personalization_zero_var m
               | Some p \<Rightarrow> p);
            (isValid, out) =
              and_then (lib_EhInitialiseState lib n k personalization') (\<lambda>state.
              and_then (update_from lib state 140) (\<lambda>(status, state).
              valid_on lib n k state)) (outside m)
        in (isValid, m\<lparr>outside := out\<rparr>))"

text \<open>
  The four bodies differ in N, K, the length and the static read: one body with these as
  parameters, for the proofs.
\<close>

definition verifyEH_m ::
  "nat \<Rightarrow> nat \<Rightarrow> nat \<Rightarrow> ('g machine \<Rightarrow> string) \<Rightarrow> ('st, 'g) library \<Rightarrow> 'g machine \<Rightarrow>
     bool result \<times> 'g machine" where
  "verifyEH_m n k len dflt lib m =
     (if length (soln_vec (outside m)) \<noteq> len then (Returns False, m)
      else
        let (isValid, out) =
              and_then
                (lib_EhInitialiseState lib n k
                   (case personalization_str (outside m) of None \<Rightarrow> dflt m | Some p \<Rightarrow> p))
                (\<lambda>state.
                   and_then (update_from lib state 140) (\<lambda>(status, state).
                   valid_on lib n k state)) (outside m)
        in (isValid, m\<lparr>outside := out\<rparr>))"

text \<open>
  A computation keeps a view of the outside when the view is the same after it as before.
\<close>

definition keeps :: "('o \<Rightarrow> 'v) \<Rightarrow> ('o \<Rightarrow> 'a result \<times> 'o) \<Rightarrow> bool" where
  "keeps view c \<longleftrightarrow> (\<forall>out. view (snd (c out)) = view out)"

definition lib_keeps :: "('g outside \<Rightarrow> 'v) \<Rightarrow> ('st, 'g) library \<Rightarrow> bool" where
  "lib_keeps view lib \<longleftrightarrow>
     (\<forall>n k p. keeps view (lib_EhInitialiseState lib n k p)) \<and>
     (\<forall>s bs. keeps view (lib_crypto_generichash_blake2b_update lib s bs)) \<and>
     (\<forall>n k s v. keeps view (lib_IsValidSolution lib n k s v))"

text \<open>The buffers of the caller, as one view of the outside.\<close>

definition caller_data :: "'g outside \<Rightarrow> byte list option \<times> byte list \<times> string option" where
  "caller_data out = (hdr_buf out, soln_vec out, personalization_str out)"

text \<open>
  Modelled from the spec: how \<^verbatim>\<open>EhInitialiseState\<close>, \<^verbatim>\<open>crypto_generichash_blake2b_update\<close> and
  \<^verbatim>\<open>IsValidSolution\<close> behave, whose code (\<^verbatim>\<open>crypto/equihash.h\<close> and what implements it) is
  not among the sources. The specification has
  \<^item> no mutation of caller-owned data and no I/O (section 4.2): \<open>leaves_caller_data\<close> and
    \<open>writes_nothing\<close>;
  \<^item> every failure caught at the lowest level and nothing thrown (section 7):
    \<open>never_throws\<close>, every operation returns;
  \<^item> the verification stateless across calls, with no shared mutable global state
    (section 3): \<open>stateless\<close>, what an operation returns depends on its arguments only. It
    may still keep state, such as a count of its calls.
\<close>

definition leaves_caller_data :: "('st, 'g) library \<Rightarrow> bool" where
  "leaves_caller_data lib \<longleftrightarrow> lib_keeps caller_data lib"

definition writes_nothing :: "('st, 'g) library \<Rightarrow> bool" where
  "writes_nothing lib \<longleftrightarrow> lib_keeps written lib"

definition never_throws :: "('st, 'g) library \<Rightarrow> bool" where
  "never_throws lib \<longleftrightarrow>
     (\<forall>n k p out. \<exists>s. fst (lib_EhInitialiseState lib n k p out) = Returns s) \<and>
     (\<forall>s bs out. \<exists>r. fst (lib_crypto_generichash_blake2b_update lib s bs out) = Returns r) \<and>
     (\<forall>n k s v out. \<exists>b. fst (lib_IsValidSolution lib n k s v out) = Returns b)"

definition stateless :: "('st, 'g) library \<Rightarrow> bool" where
  "stateless lib \<longleftrightarrow>
     (\<forall>n k p out out'.
        fst (lib_EhInitialiseState lib n k p out) = fst (lib_EhInitialiseState lib n k p out')) \<and>
     (\<forall>s bs out out'.
        fst (lib_crypto_generichash_blake2b_update lib s bs out) =
        fst (lib_crypto_generichash_blake2b_update lib s bs out')) \<and>
     (\<forall>n k s v out out'.
        fst (lib_IsValidSolution lib n k s v out) = fst (lib_IsValidSolution lib n k s v out'))"






text \<open>
  A library of the first model as a library of the second: it returns the values, with
  status 0, and touches nothing. \<open>world_of\<close> is the world of the first model that a machine
  with a header holds.
\<close>

definition pure_library :: "'st equihash_lib \<Rightarrow> ('st, 'g) library" where
  "pure_library l =
     \<lparr> lib_EhInitialiseState = (\<lambda>n k p out. (Returns (EhInitialiseState l n k p), out)),
       lib_crypto_generichash_blake2b_update =
         (\<lambda>s bs out. (Returns (0, crypto_generichash_blake2b_update l s bs), out)),
       lib_IsValidSolution = (\<lambda>n k s v out. (Returns (IsValidSolution l n k s v), out)) \<rparr>"

definition world_of :: "'g machine \<Rightarrow> 'st call list \<Rightarrow> 'st world" where
  "world_of m cs =
     \<lparr> hdr = (\<lambda>i. case hdr_buf (outside m) of
                   None \<Rightarrow> 0
                 | Some bs \<Rightarrow> if i < length bs then bs ! i else 0),
       soln = soln_vec (outside m),
       personalization = personalization_str (outside m),
       calls = cs \<rparr>"



section \<open>What each entry point computes\<close>

lemma verifyEH_96_5_reject:
  "length (soln w) \<noteq> 68 \<Longrightarrow> verifyEH_96_5 lib w = (False, w)"
  by (simp add: verifyEH_96_5_def)

lemma verifyEH_200_9_reject:
  "length (soln w) \<noteq> 1344 \<Longrightarrow> verifyEH_200_9 lib w = (False, w)"
  by (simp add: verifyEH_200_9_def)

lemma verifyEH_144_5_reject:
  "length (soln w) \<noteq> 100 \<Longrightarrow> verifyEH_144_5 lib w = (False, w)"
  by (simp add: verifyEH_144_5_def)

lemma verifyEH_192_7_reject:
  "length (soln w) \<noteq> 400 \<Longrightarrow> verifyEH_192_7 lib w = (False, w)"
  by (simp add: verifyEH_192_7_def)

lemmas call_defs =
  call_EhInitialiseState_def call_crypto_generichash_blake2b_update_def
  call_IsValidSolution_def

lemma verifyEH_96_5_run:
  "length (soln w) = 68 \<Longrightarrow>
   verifyEH_96_5 lib w =
     (let p = effective_personalization default_personalization (personalization w);
          s0 = EhInitialiseState lib 96 5 p;
          s1 = ready_state lib 96 5 p (hdr w)
      in (IsValidSolution lib 96 5 s1 (soln w),
          w\<lparr>calls := calls w @
             [InitCall 96 5 p, UpdateCall s0 (bytes_at (hdr w) 140), ValidCall 96 5 s1 (soln w)]\<rparr>))"
  by (simp add: verifyEH_96_5_def call_defs effective_personalization_def ready_state_def
      Let_def split: option.split)

lemma verifyEH_200_9_run:
  "length (soln w) = 1344 \<Longrightarrow>
   verifyEH_200_9 lib w =
     (let p = effective_personalization default_personalization (personalization w);
          s0 = EhInitialiseState lib 200 9 p;
          s1 = ready_state lib 200 9 p (hdr w)
      in (IsValidSolution lib 200 9 s1 (soln w),
          w\<lparr>calls := calls w @
             [InitCall 200 9 p, UpdateCall s0 (bytes_at (hdr w) 140), ValidCall 200 9 s1 (soln w)]\<rparr>))"
  by (simp add: verifyEH_200_9_def call_defs effective_personalization_def ready_state_def
      Let_def split: option.split)

lemma verifyEH_144_5_run:
  "length (soln w) = 100 \<Longrightarrow>
   verifyEH_144_5 lib w =
     (let p = effective_personalization default_personalization (personalization w);
          s0 = EhInitialiseState lib 144 5 p;
          s1 = ready_state lib 144 5 p (hdr w)
      in (IsValidSolution lib 144 5 s1 (soln w),
          w\<lparr>calls := calls w @
             [InitCall 144 5 p, UpdateCall s0 (bytes_at (hdr w) 140), ValidCall 144 5 s1 (soln w)]\<rparr>))"
  by (simp add: verifyEH_144_5_def call_defs effective_personalization_def ready_state_def
      Let_def split: option.split)

lemma verifyEH_192_7_run:
  "length (soln w) = 400 \<Longrightarrow>
   verifyEH_192_7 lib w =
     (let p = effective_personalization default_personalization_zero (personalization w);
          s0 = EhInitialiseState lib 192 7 p;
          s1 = ready_state lib 192 7 p (hdr w)
      in (IsValidSolution lib 192 7 s1 (soln w),
          w\<lparr>calls := calls w @
             [InitCall 192 7 p, UpdateCall s0 (bytes_at (hdr w) 140), ValidCall 192 7 s1 (soln w)]\<rparr>))"
  by (simp add: verifyEH_192_7_def call_defs effective_personalization_def ready_state_def
      Let_def split: option.split)

section \<open>Rejection of a solution of the wrong length\<close>

text \<open>
  C1. For each of the variants (96,5), (144,5), (192,7) and (200,9), and every header,
  personalization and solution: when the length of the solution differs from the length
  the variant requires (68, 100, 400 and 1344 bytes), the entry point returns false and
  leaves the world as it found it. In particular the record of calls is unchanged: no hash
  state was initialised, and the hash library was not called.
\<close>

theorem wrong_length_rejected_before_hashing:
  "(length (soln w) \<noteq> 68 \<longrightarrow> verifyEH_96_5 lib w = (False, w)) \<and>
   (length (soln w) \<noteq> 100 \<longrightarrow> verifyEH_144_5 lib w = (False, w)) \<and>
   (length (soln w) \<noteq> 400 \<longrightarrow> verifyEH_192_7 lib w = (False, w)) \<and>
   (length (soln w) \<noteq> 1344 \<longrightarrow> verifyEH_200_9 lib w = (False, w))"
  by (simp add: verifyEH_96_5_reject verifyEH_144_5_reject verifyEH_192_7_reject
      verifyEH_200_9_reject)

theorem wrong_length_rejected_before_hashing_witness:
  "length (soln (stub_world 67 0 None)) \<noteq> 68 \<and>
   length (soln (stub_world 67 0 None)) \<noteq> 100 \<and>
   length (soln (stub_world 67 0 None)) \<noteq> 400 \<and>
   length (soln (stub_world 67 0 None)) \<noteq> 1344 \<and>
   verifyEH_96_5 stub_lib (stub_world 67 0 None) = (False, stub_world 67 0 None) \<and>
   verifyEH_144_5 stub_lib (stub_world 67 0 None) = (False, stub_world 67 0 None) \<and>
   verifyEH_192_7 stub_lib (stub_world 67 0 None) = (False, stub_world 67 0 None) \<and>
   verifyEH_200_9 stub_lib (stub_world 67 0 None) = (False, stub_world 67 0 None) \<and>
   calls (snd (verifyEH_96_5 stub_lib (stub_world 67 0 None))) = []"
  using wrong_length_rejected_before_hashing [of "stub_world 67 0 None" stub_lib]
  by (simp add: stub_world_def)

section \<open>The verdict of the structural verifier\<close>

lemma verifyEH_96_5_result:
  "fst (verifyEH_96_5 lib w) =
     (length (soln w) = 68 \<and>
      IsValidSolution lib 96 5
        (ready_state lib 96 5
           (effective_personalization default_personalization (personalization w)) (hdr w))
        (soln w))"
  by (cases "length (soln w) = 68")
     (simp_all add: verifyEH_96_5_run verifyEH_96_5_reject Let_def)

lemma verifyEH_200_9_result:
  "fst (verifyEH_200_9 lib w) =
     (length (soln w) = 1344 \<and>
      IsValidSolution lib 200 9
        (ready_state lib 200 9
           (effective_personalization default_personalization (personalization w)) (hdr w))
        (soln w))"
  by (cases "length (soln w) = 1344")
     (simp_all add: verifyEH_200_9_run verifyEH_200_9_reject Let_def)

lemma verifyEH_144_5_result:
  "fst (verifyEH_144_5 lib w) =
     (length (soln w) = 100 \<and>
      IsValidSolution lib 144 5
        (ready_state lib 144 5
           (effective_personalization default_personalization (personalization w)) (hdr w))
        (soln w))"
  by (cases "length (soln w) = 100")
     (simp_all add: verifyEH_144_5_run verifyEH_144_5_reject Let_def)

lemma verifyEH_192_7_result:
  "fst (verifyEH_192_7 lib w) =
     (length (soln w) = 400 \<and>
      IsValidSolution lib 192 7
        (ready_state lib 192 7
           (effective_personalization default_personalization_zero (personalization w)) (hdr w))
        (soln w))"
  by (cases "length (soln w) = 400")
     (simp_all add: verifyEH_192_7_run verifyEH_192_7_reject Let_def)

lemma bytes_at_const: "bytes_at (\<lambda>i. b) len = replicate len b"
  by (simp add: bytes_at_def map_replicate_const)

lemmas stub_defs =
  stub_lib_def stub_world_def ready_state_def bytes_at_const effective_personalization_def
  default_personalization_def default_personalization_zero_def

text \<open>
  C2. For every variant, when the solution has the length the variant requires, the entry
  point returns exactly the boolean that \<^verbatim>\<open>IsValidSolution\<close> of that variant gives for the
  ready hash state (initialised with N, K and the personalization in effect, updated with
  the 140 header bytes) and the solution.
\<close>

theorem right_length_returns_verifier_verdict:
  "(length (soln w) = 68 \<longrightarrow>
      fst (verifyEH_96_5 lib w) =
        IsValidSolution lib 96 5
          (ready_state lib 96 5
             (effective_personalization default_personalization (personalization w)) (hdr w))
          (soln w)) \<and>
   (length (soln w) = 100 \<longrightarrow>
      fst (verifyEH_144_5 lib w) =
        IsValidSolution lib 144 5
          (ready_state lib 144 5
             (effective_personalization default_personalization (personalization w)) (hdr w))
          (soln w)) \<and>
   (length (soln w) = 400 \<longrightarrow>
      fst (verifyEH_192_7 lib w) =
        IsValidSolution lib 192 7
          (ready_state lib 192 7
             (effective_personalization default_personalization_zero (personalization w)) (hdr w))
          (soln w)) \<and>
   (length (soln w) = 1344 \<longrightarrow>
      fst (verifyEH_200_9 lib w) =
        IsValidSolution lib 200 9
          (ready_state lib 200 9
             (effective_personalization default_personalization (personalization w)) (hdr w))
          (soln w))"
  by (simp add: verifyEH_96_5_result verifyEH_144_5_result verifyEH_192_7_result
      verifyEH_200_9_result)

text \<open>
  The stub accepts the all-zero solution for the all-zero header and rejects a solution of
  bytes 1, at each of the four lengths.
\<close>

theorem right_length_returns_verifier_verdict_witness:
  "length (soln (stub_world 68 0 None)) = 68 \<and>
   fst (verifyEH_96_5 stub_lib (stub_world 68 0 None)) \<and>
   \<not> fst (verifyEH_96_5 stub_lib (stub_world 68 1 None)) \<and>
   length (soln (stub_world 100 0 None)) = 100 \<and>
   fst (verifyEH_144_5 stub_lib (stub_world 100 0 None)) \<and>
   \<not> fst (verifyEH_144_5 stub_lib (stub_world 100 1 None)) \<and>
   length (soln (stub_world 400 0 None)) = 400 \<and>
   fst (verifyEH_192_7 stub_lib (stub_world 400 0 (Some ''ZcashPoW''))) \<and>
   \<not> fst (verifyEH_192_7 stub_lib (stub_world 400 1 (Some ''ZcashPoW''))) \<and>
   length (soln (stub_world 1344 0 None)) = 1344 \<and>
   fst (verifyEH_200_9 stub_lib (stub_world 1344 0 None)) \<and>
   \<not> fst (verifyEH_200_9 stub_lib (stub_world 1344 1 None))"
  using right_length_returns_verifier_verdict [of "stub_world 68 0 None" stub_lib]
    right_length_returns_verifier_verdict [of "stub_world 68 1 None" stub_lib]
    right_length_returns_verifier_verdict [of "stub_world 100 0 None" stub_lib]
    right_length_returns_verifier_verdict [of "stub_world 100 1 None" stub_lib]
    right_length_returns_verifier_verdict [of "stub_world 400 0 (Some ''ZcashPoW'')" stub_lib]
    right_length_returns_verifier_verdict [of "stub_world 400 1 (Some ''ZcashPoW'')" stub_lib]
    right_length_returns_verifier_verdict [of "stub_world 1344 0 None" stub_lib]
    right_length_returns_verifier_verdict [of "stub_world 1344 1 None" stub_lib]
  by (simp add: stub_defs)

section \<open>The calls into the hash library\<close>

lemma init_tags_append: "init_tags (cs @ ds) = init_tags cs @ init_tags ds"
  by (induction cs rule: init_tags.induct) simp_all

lemma verifyEH_96_5_calls:
  "calls (snd (verifyEH_96_5 lib w)) =
     calls w @
     (if length (soln w) = 68
      then [InitCall 96 5 (effective_personalization default_personalization (personalization w)),
            UpdateCall
              (EhInitialiseState lib 96 5
                 (effective_personalization default_personalization (personalization w)))
              (bytes_at (hdr w) 140),
            ValidCall 96 5
              (ready_state lib 96 5
                 (effective_personalization default_personalization (personalization w)) (hdr w))
              (soln w)]
      else [])"
  by (cases "length (soln w) = 68")
     (simp_all add: verifyEH_96_5_run verifyEH_96_5_reject Let_def)

lemma verifyEH_200_9_calls:
  "calls (snd (verifyEH_200_9 lib w)) =
     calls w @
     (if length (soln w) = 1344
      then [InitCall 200 9 (effective_personalization default_personalization (personalization w)),
            UpdateCall
              (EhInitialiseState lib 200 9
                 (effective_personalization default_personalization (personalization w)))
              (bytes_at (hdr w) 140),
            ValidCall 200 9
              (ready_state lib 200 9
                 (effective_personalization default_personalization (personalization w)) (hdr w))
              (soln w)]
      else [])"
  by (cases "length (soln w) = 1344")
     (simp_all add: verifyEH_200_9_run verifyEH_200_9_reject Let_def)

lemma verifyEH_144_5_calls:
  "calls (snd (verifyEH_144_5 lib w)) =
     calls w @
     (if length (soln w) = 100
      then [InitCall 144 5 (effective_personalization default_personalization (personalization w)),
            UpdateCall
              (EhInitialiseState lib 144 5
                 (effective_personalization default_personalization (personalization w)))
              (bytes_at (hdr w) 140),
            ValidCall 144 5
              (ready_state lib 144 5
                 (effective_personalization default_personalization (personalization w)) (hdr w))
              (soln w)]
      else [])"
  by (cases "length (soln w) = 100")
     (simp_all add: verifyEH_144_5_run verifyEH_144_5_reject Let_def)

lemma verifyEH_192_7_calls:
  "calls (snd (verifyEH_192_7 lib w)) =
     calls w @
     (if length (soln w) = 400
      then [InitCall 192 7
              (effective_personalization default_personalization_zero (personalization w)),
            UpdateCall
              (EhInitialiseState lib 192 7
                 (effective_personalization default_personalization_zero (personalization w)))
              (bytes_at (hdr w) 140),
            ValidCall 192 7
              (ready_state lib 192 7
                 (effective_personalization default_personalization_zero (personalization w))
                 (hdr w))
              (soln w)]
      else [])"
  by (cases "length (soln w) = 400")
     (simp_all add: verifyEH_192_7_run verifyEH_192_7_reject Let_def)

text \<open>
  C3. When the personalization argument is absent (\<^verbatim>\<open>NULL\<close>) and the solution has the
  required length, \<^verbatim>\<open>verifyEH_192_7\<close> calls \<^verbatim>\<open>EhInitialiseState\<close> with the tag \<^verbatim>\<open>ZERO_PoW\<close>,
  and the state it updates with the header and hands to the verifier is the state that this
  call returned; its result is the verdict on that state. \<^verbatim>\<open>verifyEH_96_5\<close>, \<^verbatim>\<open>verifyEH_144_5\<close>
  and \<^verbatim>\<open>verifyEH_200_9\<close> do the same with the tag \<^verbatim>\<open>ZcashPoW\<close>. In every case, the wrong
  length included, the tags of the states a call initialises are the default of the variant
  or none. The two tags differ, so with the argument absent the state of (192,7) never
  gets the tag of the other three variants, nor they the tag of (192,7).
\<close>

theorem absent_personalization_selects_variant_default:
  "personalization w = None \<Longrightarrow>
   (length (soln w) = 400 \<longrightarrow>
      calls (snd (verifyEH_192_7 lib w)) =
        calls w @
        [InitCall 192 7 ''ZERO_PoW'',
         UpdateCall (EhInitialiseState lib 192 7 ''ZERO_PoW'') (map (hdr w) [0..<140]),
         ValidCall 192 7
           (crypto_generichash_blake2b_update lib (EhInitialiseState lib 192 7 ''ZERO_PoW'')
              (map (hdr w) [0..<140]))
           (soln w)] \<and>
      fst (verifyEH_192_7 lib w) =
        IsValidSolution lib 192 7
          (crypto_generichash_blake2b_update lib (EhInitialiseState lib 192 7 ''ZERO_PoW'')
             (map (hdr w) [0..<140]))
          (soln w)) \<and>
   (length (soln w) = 68 \<longrightarrow>
      calls (snd (verifyEH_96_5 lib w)) =
        calls w @
        [InitCall 96 5 ''ZcashPoW'',
         UpdateCall (EhInitialiseState lib 96 5 ''ZcashPoW'') (map (hdr w) [0..<140]),
         ValidCall 96 5
           (crypto_generichash_blake2b_update lib (EhInitialiseState lib 96 5 ''ZcashPoW'')
              (map (hdr w) [0..<140]))
           (soln w)] \<and>
      fst (verifyEH_96_5 lib w) =
        IsValidSolution lib 96 5
          (crypto_generichash_blake2b_update lib (EhInitialiseState lib 96 5 ''ZcashPoW'')
             (map (hdr w) [0..<140]))
          (soln w)) \<and>
   (length (soln w) = 100 \<longrightarrow>
      calls (snd (verifyEH_144_5 lib w)) =
        calls w @
        [InitCall 144 5 ''ZcashPoW'',
         UpdateCall (EhInitialiseState lib 144 5 ''ZcashPoW'') (map (hdr w) [0..<140]),
         ValidCall 144 5
           (crypto_generichash_blake2b_update lib (EhInitialiseState lib 144 5 ''ZcashPoW'')
              (map (hdr w) [0..<140]))
           (soln w)] \<and>
      fst (verifyEH_144_5 lib w) =
        IsValidSolution lib 144 5
          (crypto_generichash_blake2b_update lib (EhInitialiseState lib 144 5 ''ZcashPoW'')
             (map (hdr w) [0..<140]))
          (soln w)) \<and>
   (length (soln w) = 1344 \<longrightarrow>
      calls (snd (verifyEH_200_9 lib w)) =
        calls w @
        [InitCall 200 9 ''ZcashPoW'',
         UpdateCall (EhInitialiseState lib 200 9 ''ZcashPoW'') (map (hdr w) [0..<140]),
         ValidCall 200 9
           (crypto_generichash_blake2b_update lib (EhInitialiseState lib 200 9 ''ZcashPoW'')
              (map (hdr w) [0..<140]))
           (soln w)] \<and>
      fst (verifyEH_200_9 lib w) =
        IsValidSolution lib 200 9
          (crypto_generichash_blake2b_update lib (EhInitialiseState lib 200 9 ''ZcashPoW'')
             (map (hdr w) [0..<140]))
          (soln w)) \<and>
   init_tags (calls (snd (verifyEH_192_7 lib w))) =
     init_tags (calls w) @ (if length (soln w) = 400 then [''ZERO_PoW''] else []) \<and>
   init_tags (calls (snd (verifyEH_96_5 lib w))) =
     init_tags (calls w) @ (if length (soln w) = 68 then [''ZcashPoW''] else []) \<and>
   init_tags (calls (snd (verifyEH_144_5 lib w))) =
     init_tags (calls w) @ (if length (soln w) = 100 then [''ZcashPoW''] else []) \<and>
   init_tags (calls (snd (verifyEH_200_9 lib w))) =
     init_tags (calls w) @ (if length (soln w) = 1344 then [''ZcashPoW''] else []) \<and>
   default_personalization_zero \<noteq> default_personalization"
  by (simp add: verifyEH_192_7_calls verifyEH_96_5_calls verifyEH_144_5_calls
      verifyEH_200_9_calls verifyEH_192_7_result verifyEH_96_5_result verifyEH_144_5_result
      verifyEH_200_9_result init_tags_append effective_personalization_def ready_state_def
      bytes_at_def default_personalization_def default_personalization_zero_def)

theorem absent_personalization_selects_variant_default_witness:
  "personalization (stub_world 400 0 None) = None \<and>
   length (soln (stub_world 400 0 None)) = 400 \<and>
   calls (snd (verifyEH_192_7 stub_lib (stub_world 400 0 None))) =
     [InitCall 192 7 ''ZERO_PoW'',
      UpdateCall (192, 7, ''ZERO_PoW'', []) (replicate 140 0),
      ValidCall 192 7 (192, 7, ''ZERO_PoW'', replicate 140 0) (replicate 400 0)] \<and>
   calls (snd (verifyEH_96_5 stub_lib (stub_world 68 0 None))) =
     [InitCall 96 5 ''ZcashPoW'',
      UpdateCall (96, 5, ''ZcashPoW'', []) (replicate 140 0),
      ValidCall 96 5 (96, 5, ''ZcashPoW'', replicate 140 0) (replicate 68 0)] \<and>
   calls (snd (verifyEH_144_5 stub_lib (stub_world 100 0 None))) =
     [InitCall 144 5 ''ZcashPoW'',
      UpdateCall (144, 5, ''ZcashPoW'', []) (replicate 140 0),
      ValidCall 144 5 (144, 5, ''ZcashPoW'', replicate 140 0) (replicate 100 0)] \<and>
   calls (snd (verifyEH_200_9 stub_lib (stub_world 1344 0 None))) =
     [InitCall 200 9 ''ZcashPoW'',
      UpdateCall (200, 9, ''ZcashPoW'', []) (replicate 140 0),
      ValidCall 200 9 (200, 9, ''ZcashPoW'', replicate 140 0) (replicate 1344 0)] \<and>
   init_tags (calls (snd (verifyEH_192_7 stub_lib (stub_world 400 0 None)))) = [''ZERO_PoW''] \<and>
   init_tags (calls (snd (verifyEH_96_5 stub_lib (stub_world 68 0 None)))) = [''ZcashPoW'']"
  using absent_personalization_selects_variant_default
      [of "stub_world 400 0 None" stub_lib]
    absent_personalization_selects_variant_default
      [of "stub_world 68 0 None" stub_lib]
    absent_personalization_selects_variant_default
      [of "stub_world 100 0 None" stub_lib]
    absent_personalization_selects_variant_default
      [of "stub_world 1344 0 None" stub_lib]
  by (simp add: stub_lib_def stub_world_def map_replicate_const)

section \<open>The required length of a solution\<close>

lemma packed_bits_whole_bytes:
  "solutionIndexCount 5 * bitsPerIndex 96 5 = 8 * 68"
  "solutionIndexCount 5 * bitsPerIndex 144 5 = 8 * 100"
  "solutionIndexCount 7 * bitsPerIndex 192 7 = 8 * 400"
  "solutionIndexCount 9 * bitsPerIndex 200 9 = 8 * 1344"
  by (simp_all add: solutionIndexCount_def bitsPerIndex_def)

lemma requiredSolutionBytes_values:
  "requiredSolutionBytes 96 5 = 68"
  "requiredSolutionBytes 144 5 = 100"
  "requiredSolutionBytes 192 7 = 400"
  "requiredSolutionBytes 200 9 = 1344"
  by (simp_all add: requiredSolutionBytes_def packed_bits_whole_bytes)

text \<open>
  C4. For each of the four variants, the length that the entry point checks is the
  specification's \<open>requiredSolutionBytes\<close>: the packed bit length of \<open>2 ^ K\<close> indices at
  \<open>N / (K + 1) + 1\<close> bits each, rounded to bytes, which is 68 for (96,5), 100 for (144,5),
  400 for (192,7) and 1344 for (200,9). The entry point goes on to call the hash library
  exactly when the solution has that length.
\<close>

theorem checked_length_is_packed_index_length:
  "(requiredSolutionBytes 96 5 = 68 \<and>
    (calls (snd (verifyEH_96_5 lib w)) \<noteq> calls w) = (length (soln w) = requiredSolutionBytes 96 5)) \<and>
   (requiredSolutionBytes 144 5 = 100 \<and>
    (calls (snd (verifyEH_144_5 lib w)) \<noteq> calls w) = (length (soln w) = requiredSolutionBytes 144 5)) \<and>
   (requiredSolutionBytes 192 7 = 400 \<and>
    (calls (snd (verifyEH_192_7 lib w)) \<noteq> calls w) = (length (soln w) = requiredSolutionBytes 192 7)) \<and>
   (requiredSolutionBytes 200 9 = 1344 \<and>
    (calls (snd (verifyEH_200_9 lib w)) \<noteq> calls w) = (length (soln w) = requiredSolutionBytes 200 9))"
  by (simp add: requiredSolutionBytes_values verifyEH_96_5_calls verifyEH_144_5_calls
      verifyEH_192_7_calls verifyEH_200_9_calls)

section \<open>How the hash state is prepared\<close>

text \<open>
  C5. In every call that passes the length check, the entry point makes exactly three
  calls, in this order: \<^verbatim>\<open>EhInitialiseState\<close> with the (N, K) of the variant and the
  personalization in effect; one \<^verbatim>\<open>crypto_generichash_blake2b_update\<close> of the state just
  initialised with the bytes \<^verbatim>\<open>hdr[0]\<close>, ..., \<^verbatim>\<open>hdr[139]\<close>; and \<^verbatim>\<open>IsValidSolution\<close> on the
  state that this update produced and the solution. Nothing else is mixed into the state.
\<close>

theorem ready_state_is_init_then_one_update:
  "(length (soln w) = 68 \<longrightarrow>
      (let p = effective_personalization default_personalization (personalization w);
           s0 = EhInitialiseState lib 96 5 p;
           s1 = crypto_generichash_blake2b_update lib s0 (map (hdr w) [0..<140])
       in calls (snd (verifyEH_96_5 lib w)) =
            calls w @
            [InitCall 96 5 p, UpdateCall s0 (map (hdr w) [0..<140]), ValidCall 96 5 s1 (soln w)])) \<and>
   (length (soln w) = 100 \<longrightarrow>
      (let p = effective_personalization default_personalization (personalization w);
           s0 = EhInitialiseState lib 144 5 p;
           s1 = crypto_generichash_blake2b_update lib s0 (map (hdr w) [0..<140])
       in calls (snd (verifyEH_144_5 lib w)) =
            calls w @
            [InitCall 144 5 p, UpdateCall s0 (map (hdr w) [0..<140]), ValidCall 144 5 s1 (soln w)])) \<and>
   (length (soln w) = 400 \<longrightarrow>
      (let p = effective_personalization default_personalization_zero (personalization w);
           s0 = EhInitialiseState lib 192 7 p;
           s1 = crypto_generichash_blake2b_update lib s0 (map (hdr w) [0..<140])
       in calls (snd (verifyEH_192_7 lib w)) =
            calls w @
            [InitCall 192 7 p, UpdateCall s0 (map (hdr w) [0..<140]), ValidCall 192 7 s1 (soln w)])) \<and>
   (length (soln w) = 1344 \<longrightarrow>
      (let p = effective_personalization default_personalization (personalization w);
           s0 = EhInitialiseState lib 200 9 p;
           s1 = crypto_generichash_blake2b_update lib s0 (map (hdr w) [0..<140])
       in calls (snd (verifyEH_200_9 lib w)) =
            calls w @
            [InitCall 200 9 p, UpdateCall s0 (map (hdr w) [0..<140]), ValidCall 200 9 s1 (soln w)]))"
  by (simp add: verifyEH_96_5_calls verifyEH_144_5_calls verifyEH_192_7_calls
      verifyEH_200_9_calls ready_state_def bytes_at_def Let_def)

theorem ready_state_is_init_then_one_update_witness:
  "length (soln (stub_world 68 0 None)) = 68 \<and>
   calls (snd (verifyEH_96_5 stub_lib (stub_world 68 0 None))) =
     [InitCall 96 5 ''ZcashPoW'',
      UpdateCall (96, 5, ''ZcashPoW'', []) (replicate 140 0),
      ValidCall 96 5 (96, 5, ''ZcashPoW'', replicate 140 0) (replicate 68 0)] \<and>
   length (soln (stub_world 100 0 (Some ''override''))) = 100 \<and>
   calls (snd (verifyEH_144_5 stub_lib (stub_world 100 0 (Some ''override'')))) =
     [InitCall 144 5 ''override'',
      UpdateCall (144, 5, ''override'', []) (replicate 140 0),
      ValidCall 144 5 (144, 5, ''override'', replicate 140 0) (replicate 100 0)] \<and>
   length (soln (stub_world 400 0 None)) = 400 \<and>
   calls (snd (verifyEH_192_7 stub_lib (stub_world 400 0 None))) =
     [InitCall 192 7 ''ZERO_PoW'',
      UpdateCall (192, 7, ''ZERO_PoW'', []) (replicate 140 0),
      ValidCall 192 7 (192, 7, ''ZERO_PoW'', replicate 140 0) (replicate 400 0)] \<and>
   length (soln (stub_world 1344 0 None)) = 1344 \<and>
   calls (snd (verifyEH_200_9 stub_lib (stub_world 1344 0 None))) =
     [InitCall 200 9 ''ZcashPoW'',
      UpdateCall (200, 9, ''ZcashPoW'', []) (replicate 140 0),
      ValidCall 200 9 (200, 9, ''ZcashPoW'', replicate 140 0) (replicate 1344 0)]"
  using ready_state_is_init_then_one_update [of "stub_world 68 0 None" stub_lib]
    ready_state_is_init_then_one_update [of "stub_world 100 0 (Some ''override'')" stub_lib]
    ready_state_is_init_then_one_update [of "stub_world 400 0 None" stub_lib]
    ready_state_is_init_then_one_update [of "stub_world 1344 0 None" stub_lib]
  by (simp add: stub_lib_def stub_world_def effective_personalization_def
      default_personalization_def default_personalization_zero_def map_replicate_const Let_def)

section \<open>The default personalization and the header bytes read\<close>

text \<open>
  C9. For every variant, header and solution, a call with the personalization absent
  behaves as the call with the default tag of the variant passed explicitly
  (\<^verbatim>\<open>ZcashPoW\<close> for (96,5), (144,5) and (200,9), \<^verbatim>\<open>ZERO_PoW\<close> for (192,7)): the same
  boolean, and the same calls into the hash library.
\<close>

theorem absent_personalization_same_as_explicit_default:
  "(fst (verifyEH_96_5 lib (w\<lparr>personalization := None\<rparr>)) =
      fst (verifyEH_96_5 lib (w\<lparr>personalization := Some ''ZcashPoW''\<rparr>)) \<and>
    calls (snd (verifyEH_96_5 lib (w\<lparr>personalization := None\<rparr>))) =
      calls (snd (verifyEH_96_5 lib (w\<lparr>personalization := Some ''ZcashPoW''\<rparr>)))) \<and>
   (fst (verifyEH_144_5 lib (w\<lparr>personalization := None\<rparr>)) =
      fst (verifyEH_144_5 lib (w\<lparr>personalization := Some ''ZcashPoW''\<rparr>)) \<and>
    calls (snd (verifyEH_144_5 lib (w\<lparr>personalization := None\<rparr>))) =
      calls (snd (verifyEH_144_5 lib (w\<lparr>personalization := Some ''ZcashPoW''\<rparr>)))) \<and>
   (fst (verifyEH_200_9 lib (w\<lparr>personalization := None\<rparr>)) =
      fst (verifyEH_200_9 lib (w\<lparr>personalization := Some ''ZcashPoW''\<rparr>)) \<and>
    calls (snd (verifyEH_200_9 lib (w\<lparr>personalization := None\<rparr>))) =
      calls (snd (verifyEH_200_9 lib (w\<lparr>personalization := Some ''ZcashPoW''\<rparr>)))) \<and>
   (fst (verifyEH_192_7 lib (w\<lparr>personalization := None\<rparr>)) =
      fst (verifyEH_192_7 lib (w\<lparr>personalization := Some ''ZERO_PoW''\<rparr>)) \<and>
    calls (snd (verifyEH_192_7 lib (w\<lparr>personalization := None\<rparr>))) =
      calls (snd (verifyEH_192_7 lib (w\<lparr>personalization := Some ''ZERO_PoW''\<rparr>))))"
  by (simp add: verifyEH_96_5_result verifyEH_144_5_result verifyEH_200_9_result
      verifyEH_192_7_result verifyEH_96_5_calls verifyEH_144_5_calls verifyEH_200_9_calls
      verifyEH_192_7_calls effective_personalization_def default_personalization_def
      default_personalization_zero_def)

lemma bytes_at_cong: "\<forall>i<len. p i = q i \<Longrightarrow> bytes_at p len = bytes_at q len"
  by (simp add: bytes_at_def)

lemma ready_state_cong:
  "\<forall>i<140. h i = h' i \<Longrightarrow> ready_state lib n k p h = ready_state lib n k p h'"
  using bytes_at_cong [of 140 h h'] by (simp add: ready_state_def)

text \<open>
  C10. For every variant, the result depends on the bytes \<^verbatim>\<open>hdr[0]\<close>, ..., \<^verbatim>\<open>hdr[139]\<close> of
  the header only: two calls whose headers agree on these 140 bytes, with the same solution
  and personalization, return the same boolean.
\<close>

theorem verify_depends_on_first_140_header_bytes:
  assumes "\<forall>i<140. hdr w i = hdr w' i"
    and "soln w = soln w'"
    and "personalization w = personalization w'"
  shows "fst (verifyEH_96_5 lib w) = fst (verifyEH_96_5 lib w') \<and>
         fst (verifyEH_144_5 lib w) = fst (verifyEH_144_5 lib w') \<and>
         fst (verifyEH_192_7 lib w) = fst (verifyEH_192_7 lib w') \<and>
         fst (verifyEH_200_9 lib w) = fst (verifyEH_200_9 lib w')"
proof -
  have "ready_state lib n k p (hdr w) = ready_state lib n k p (hdr w')" for n k p
    using assms(1) by (rule ready_state_cong)
  with assms(2,3) show ?thesis
    by (simp add: verifyEH_96_5_result verifyEH_144_5_result verifyEH_192_7_result
        verifyEH_200_9_result)
qed

theorem verify_depends_on_first_140_header_bytes_witness:
  "map (hdr (stub_world 68 0 None)) [0..<140] =
     map (hdr ((stub_world 68 0 None)\<lparr>hdr := (\<lambda>i. if i < 140 then 0 else 255)\<rparr>)) [0..<140] \<and>
   hdr (stub_world 68 0 None) 140 \<noteq>
     hdr ((stub_world 68 0 None)\<lparr>hdr := (\<lambda>i. if i < 140 then 0 else 255)\<rparr>) 140 \<and>
   fst (verifyEH_96_5 stub_lib (stub_world 68 0 None)) =
     fst (verifyEH_96_5 stub_lib
            ((stub_world 68 0 None)\<lparr>hdr := (\<lambda>i. if i < 140 then 0 else 255)\<rparr>)) \<and>
   fst (verifyEH_192_7 stub_lib (stub_world 68 0 None)) =
     fst (verifyEH_192_7 stub_lib
            ((stub_world 68 0 None)\<lparr>hdr := (\<lambda>i. if i < 140 then 0 else 255)\<rparr>))"
  using verify_depends_on_first_140_header_bytes
    [of "stub_world 68 0 None"
        "(stub_world 68 0 None)\<lparr>hdr := (\<lambda>i. if i < 140 then 0 else 255)\<rparr>" stub_lib]
  by (simp add: stub_world_def)

section \<open>The second model: what the entry points add to the library\<close>

text \<open>
  Each of the four definitions is the one body at the values of its function.
\<close>

lemma verifyEH_96_5_m_eq: "verifyEH_96_5_m = verifyEH_m 96 5 68 default_personalization_var"
  by (intro ext) (simp add: verifyEH_96_5_m_def verifyEH_m_def Let_def)

lemma verifyEH_200_9_m_eq: "verifyEH_200_9_m = verifyEH_m 200 9 1344 default_personalization_var"
  by (intro ext) (simp add: verifyEH_200_9_m_def verifyEH_m_def Let_def)

lemma verifyEH_144_5_m_eq: "verifyEH_144_5_m = verifyEH_m 144 5 100 default_personalization_var"
  by (intro ext) (simp add: verifyEH_144_5_m_def verifyEH_m_def Let_def)

lemma verifyEH_192_7_m_eq:
  "verifyEH_192_7_m = verifyEH_m 192 7 400 default_personalization_zero_var"
  by (intro ext) (simp add: verifyEH_192_7_m_def verifyEH_m_def Let_def)

lemmas verifyEH_m_eqs =
  verifyEH_96_5_m_eq verifyEH_200_9_m_eq verifyEH_144_5_m_eq verifyEH_192_7_m_eq



subsection \<open>What the library keeps, a call keeps\<close>






subsection \<open>Runs from the same buffers\<close>



















subsection \<open>Returning\<close>


text \<open>
  There is no handler in the source: what \<^verbatim>\<open>EhInitialiseState\<close> throws leaves the entry
  point.
\<close>

lemma verifyEH_m_init_throws:
  assumes "length (soln_vec (outside m)) = len"
    and "fst (lib_EhInitialiseState lib n k
                (case personalization_str (outside m) of None \<Rightarrow> dflt m | Some p \<Rightarrow> p)
                (outside m)) = Throws e"
  shows "fst (verifyEH_m n k len dflt lib m) = Throws e"
  using assms by (simp add: verifyEH_m_def and_then_def case_prod_beta split: prod.split)

subsection \<open>The two models agree\<close>

text \<open>
  The libraries of the first model keep the contract, and so does the counting stub. On a
  machine whose header holds 140 bytes and whose statics have their initial values, an
  entry point with a library of the first model returns what the first model computes.
\<close>

lemma pure_library_contract:
  "never_throws (pure_library l)" "stateless (pure_library l)"
  "leaves_caller_data (pure_library l)" "writes_nothing (pure_library l)"
  by (simp_all add: never_throws_def stateless_def leaves_caller_data_def writes_nothing_def
      lib_keeps_def keeps_def pure_library_def)


lemma map_nth_take:
  "n \<le> length bs \<Longrightarrow> map (\<lambda>i. if i < length bs then bs ! i else (0::byte)) [0..<n] = take n bs"
  by (rule nth_equalityI) simp_all

lemma verifyEH_m_pure:
  assumes "hdr_buf (outside m) = Some bs" and "140 \<le> length bs"
  shows "fst (verifyEH_m n k len dflt (pure_library l) m) =
           Returns
             (length (soln_vec (outside m)) = len \<and>
              IsValidSolution l n k
                (ready_state l n k
                   (effective_personalization (dflt m) (personalization_str (outside m)))
                   (hdr (world_of m cs)))
                (soln_vec (outside m)))"
  using assms
  by (simp add: verifyEH_m_def pure_library_def and_then_def update_from_def read_bytes_def
      valid_on_def ready_state_def bytes_at_def world_of_def effective_personalization_def
      map_nth_take)

lemma machine_agrees_with_world:
  assumes "hdr_buf (outside m) = Some bs" and "140 \<le> length bs"
    and "default_personalization_var m = default_personalization"
    and "default_personalization_zero_var m = default_personalization_zero"
  shows "fst (verifyEH_96_5_m (pure_library l) m) = Returns (fst (verifyEH_96_5 l (world_of m cs)))"
    and "fst (verifyEH_200_9_m (pure_library l) m) = Returns (fst (verifyEH_200_9 l (world_of m cs)))"
    and "fst (verifyEH_144_5_m (pure_library l) m) = Returns (fst (verifyEH_144_5 l (world_of m cs)))"
    and "fst (verifyEH_192_7_m (pure_library l) m) = Returns (fst (verifyEH_192_7 l (world_of m cs)))"
  using assms(3,4)
  by (simp_all add: verifyEH_m_eqs verifyEH_m_pure [OF assms(1,2), of _ _ _ _ _ cs]
      verifyEH_96_5_result verifyEH_200_9_result verifyEH_144_5_result verifyEH_192_7_result)
    (simp_all add: world_of_def)

section \<open>Failures\<close>




section \<open>Determinism\<close>




section \<open>The frame\<close>



end
